theory Spec2Isabelle
  imports Main "HOL-Library.Multiset" "HOL-Library.Char_ord" "HOL-Library.List_Lexorder"
    "HOL-Library.Word"
begin

section \<open>MergeMate: the file ingestion and merge pipeline\<close>

text \<open>
  A shallow embedding of the pipeline of \<^verbatim>\<open>src/file_merger.py\<close> and of the package
  \<^verbatim>\<open>src/src\<close> (\<^verbatim>\<open>file_utils.py\<close>, \<^verbatim>\<open>zip_utils.py\<close>, \<^verbatim>\<open>app.py\<close>).

  Conventions.
  \<^item> A Python \<^verbatim>\<open>str\<close> is a \<^typ>\<open>string\<close>; one \<^typ>\<open>char\<close> stands for one code point
    (the code points 0 to 255), so \<^const>\<open>length\<close> is Python's \<^verbatim>\<open>len\<close> and the order of
    \<^verbatim>\<open>HOL-Library.Char_ord\<close> with \<^verbatim>\<open>HOL-Library.List_Lexorder\<close> is Python's
    comparison of strings.
  \<^item> A Python \<^verbatim>\<open>bytes\<close> is a list of 8-bit words.
  \<^item> An exception is a value: a computation that may raise has the type
    \<open>exn + 'a\<close>, with \<^const>\<open>Inl\<close> the raised exception.
  \<^item> The operating system, \<^verbatim>\<open>chardet\<close> and \<^verbatim>\<open>zipfile\<close> are a record of
    functions, \<open>os_env\<close>: the code is verified for every behaviour of theirs.
  \<^item> The line break \<^verbatim>\<open>\n\<close> is \<^term>\<open>CHR 0x0A\<close>.
\<close>

subsection \<open>Exceptions\<close>

text \<open>
  The exception classes the pipeline can meet. All of them are subclasses of Python's
  \<^verbatim>\<open>Exception\<close>; each carries its message, which \<^verbatim>\<open>str(e)\<close> returns.
  Signals that are no \<^verbatim>\<open>Exception\<close> (\<^verbatim>\<open>KeyboardInterrupt\<close>, \<^verbatim>\<open>SystemExit\<close>) are
  outside the model.
\<close>

datatype exn =
    UnicodeDecodeError string
  | OSError string
  | LookupError string
  | BadZipFile string
  | NotImplementedError string
  | Exception string

fun str :: "exn \<Rightarrow> string" where
  "str (UnicodeDecodeError m) = m"
| "str (OSError m) = m"
| "str (LookupError m) = m"
| "str (BadZipFile m) = m"
| "str (NotImplementedError m) = m"
| "str (Exception m) = m"

text \<open>
  \<^verbatim>\<open>try: body  except: handler\<close> and sequencing of computations that may raise. A handler
  is given the exception; a bare \<^verbatim>\<open>except:\<close> ignores it.
\<close>

definition try_except :: "exn + 'a \<Rightarrow> (exn \<Rightarrow> exn + 'a) \<Rightarrow> exn + 'a" where
  "try_except body handler = (case body of Inl e \<Rightarrow> handler e | Inr v \<Rightarrow> Inr v)"

definition and_then :: "exn + 'a \<Rightarrow> ('a \<Rightarrow> exn + 'b) \<Rightarrow> exn + 'b" where
  "and_then m f = (case m of Inl e \<Rightarrow> Inl e | Inr v \<Rightarrow> f v)"

subsection \<open>The environment\<close>

type_synonym bytes = "8 word list"

text \<open>The \<^verbatim>\<open>errors\<close> argument of \<^verbatim>\<open>open\<close>: the default \<^verbatim>\<open>'strict'\<close>, or \<^verbatim>\<open>'ignore'\<close>.\<close>

datatype decode_errors = Strict | Ignore

text \<open>
  What \<^verbatim>\<open>zipfile.ZipFile(zip_file, 'r').extractall(temp_dir)\<close> leaves in the fresh
  directory: a directory is the list of its entries in the order in which the operating
  system lists them (an order the code does not control), each a regular file or a
  directory.
\<close>

datatype dirent = RegFile | Directory "(string \<times> dirent) list"

record os_env =
  read_binary :: "string \<Rightarrow> exn + bytes"
    \<comment> \<open>\<^verbatim>\<open>open(file_path, 'rb')\<close> and \<^verbatim>\<open>file.read()\<close>\<close>
  chardet_detect :: "bytes \<Rightarrow> exn + string option"
    \<comment> \<open>\<^verbatim>\<open>chardet.detect(raw_data)['encoding']\<close>, \<^const>\<open>None\<close> for Python's \<^verbatim>\<open>None\<close>\<close>
  read_text :: "string \<Rightarrow> string \<Rightarrow> decode_errors \<Rightarrow> exn + string"
    \<comment> \<open>\<^verbatim>\<open>open(file_path, 'r', encoding=..., errors=...)\<close> and \<^verbatim>\<open>file.read()\<close>\<close>
  mkdtemp :: "exn + string"
    \<comment> \<open>\<^verbatim>\<open>tempfile.mkdtemp()\<close>\<close>
  extractall :: "bytes \<Rightarrow> string \<Rightarrow> exn + (string \<times> dirent) list"
    \<comment> \<open>opening the archive and \<^verbatim>\<open>extractall(temp_dir)\<close>: the entries of \<^verbatim>\<open>temp_dir\<close> afterwards\<close>

subsection \<open>Encoding Detector and File Reader\<close>

text \<open>
  \<^verbatim>\<open>detect_encoding\<close> and \<^verbatim>\<open>read_file_content\<close> of \<^verbatim>\<open>src/src/file_utils.py\<close>; the functions
  of the same names in \<^verbatim>\<open>src/file_merger.py\<close> have the same bodies, comments apart.
\<close>

definition detect_encoding :: "os_env \<Rightarrow> string \<Rightarrow> exn + string" where
  "detect_encoding env file_path =
     try_except
       (and_then (read_binary env file_path) (\<lambda>raw_data.
        and_then (chardet_detect env raw_data) (\<lambda>result.
          Inr (case result of
                 Some encoding \<Rightarrow> if encoding \<noteq> [] then encoding else ''utf-8''
               | None \<Rightarrow> ''utf-8''))))
       (\<lambda>_. Inr ''utf-8'')"

definition read_file_content :: "os_env \<Rightarrow> string \<Rightarrow> exn + (string \<times> bool)" where
  "read_file_content env file_path =
     try_except
       (and_then (detect_encoding env file_path) (\<lambda>encoding.
        and_then (read_text env file_path encoding Strict) (\<lambda>content.
          Inr (content, True))))
       (\<lambda>e. case e of
          UnicodeDecodeError _ \<Rightarrow>
            try_except
              (and_then (read_text env file_path ''utf-8'' Ignore) (\<lambda>content.
                 Inr (content, True)))
              (\<lambda>_. Inr (''[Error: Could not read file '' @ file_path @ '']'', False))
        | _ \<Rightarrow> Inr (''[Error reading '' @ file_path @ '': '' @ str e @ '']'', False))"

subsection \<open>Merge Engine\<close>

text \<open>\<^verbatim>\<open>os.path.basename\<close> (posixpath): what follows the last \<^verbatim>\<open>/\<close>.\<close>

definition basename :: "string \<Rightarrow> string" where
  "basename p = rev (takeWhile (\<lambda>c. c \<noteq> CHR ''/'') (rev p))"

text \<open>
  The elements the loop appends to \<^verbatim>\<open>merged_content\<close>, each tagged with the statement
  that appends it; \<^verbatim>\<open>"".join(merged_content)\<close> concatenates their texts.
\<close>

datatype piece = Header string | Content string | Separator string

fun piece_text :: "piece \<Rightarrow> string" where
  "piece_text (Header s) = s"
| "piece_text (Content s) = s"
| "piece_text (Separator s) = s"

fun is_header :: "piece \<Rightarrow> bool" where
  "is_header (Header s) = True"
| "is_header p = False"

fun is_separator :: "piece \<Rightarrow> bool" where
  "is_separator (Separator s) = True"
| "is_separator p = False"

definition default_separator :: string where
  "default_separator = [CHR 0x0A] @ replicate 80 CHR ''='' @ [CHR 0x0A]"

definition header_of :: "string \<Rightarrow> string" where
  "header_of filename =
     [CHR 0x0A] @ filename @ '':'' @ [CHR 0x0A]
       @ replicate (length filename + 1) CHR ''-'' @ [CHR 0x0A]"

text \<open>
  The loop \<^verbatim>\<open>for file_path in file_paths\<close> of \<^verbatim>\<open>merge_files\<close>, over the paths still to
  visit. \<open>file_paths\<close> is the whole list: the test \<^verbatim>\<open>file_path != file_paths[-1]\<close>
  compares the path with the last element of the whole list, by value. The body runs only
  when \<open>file_paths\<close> is not empty, so \<^term>\<open>last file_paths\<close> is \<^verbatim>\<open>file_paths[-1]\<close>.
\<close>

fun merge_loop :: "os_env \<Rightarrow> string list \<Rightarrow> string \<Rightarrow> string list \<Rightarrow> exn + piece list" where
  "merge_loop env file_paths separator [] = Inr []"
| "merge_loop env file_paths separator (file_path # rest) =
     (let filename = basename file_path;
          header = header_of filename
      in and_then (read_file_content env file_path) (\<lambda>(content, success).
         and_then (merge_loop env file_paths separator rest) (\<lambda>more.
           Inr ([Header header, Content content]
                @ (if file_path \<noteq> last file_paths then [Separator separator] else [])
                @ more))))"

definition merged_content :: "os_env \<Rightarrow> string list \<Rightarrow> string \<Rightarrow> exn + piece list" where
  "merged_content env file_paths separator = merge_loop env file_paths separator file_paths"

text \<open>
  \<^verbatim>\<open>merge_files\<close> of \<^verbatim>\<open>src/file_merger.py\<close> and \<^verbatim>\<open>FileMergerApp.merge_files\<close> of
  \<^verbatim>\<open>src/src/app.py\<close>: the two bodies are the same.
\<close>

definition merge_files :: "os_env \<Rightarrow> string list \<Rightarrow> string \<Rightarrow> exn + string" where
  "merge_files env file_paths separator =
     and_then (merged_content env file_paths separator) (\<lambda>pieces.
       Inr (concat (map piece_text pieces)))"

subsection \<open>Type Filter\<close>

text \<open>
  \<^verbatim>\<open>str.lower\<close> on one code point below 256: the ASCII capitals and the Latin-1 capitals
  (\<^verbatim>\<open>U+00C0\<close> to \<^verbatim>\<open>U+00DE\<close>, the multiplication sign \<^verbatim>\<open>U+00D7\<close> apart) move up by 32.
\<close>

definition lower_char :: "char \<Rightarrow> char" where
  "lower_char c =
     (let n = (of_char c :: nat)
      in if (65 \<le> n \<and> n \<le> 90) \<or> (192 \<le> n \<and> n \<le> 222 \<and> n \<noteq> 215)
         then char_of (n + 32) else c)"

definition lower :: "string \<Rightarrow> string" where
  "lower s = map lower_char s"

text \<open>\<^verbatim>\<open>str.split(sep)\<close> for a separator of one character.\<close>

fun split_on :: "char \<Rightarrow> string \<Rightarrow> string list" where
  "split_on sep [] = [[]]"
| "split_on sep (c # cs) =
     (if c = sep then [] # split_on sep cs
      else (case split_on sep cs of
              w # ws \<Rightarrow> (c # w) # ws
            | [] \<Rightarrow> [[c]]))"

text \<open>
  \<^verbatim>\<open>str.rfind\<close> for one character: the index of its last occurrence, or \<open>-1\<close>.
\<close>

definition rfind :: "string \<Rightarrow> char \<Rightarrow> int" where
  "rfind s c =
     (if c \<in> set s
      then int (length s) - 1 - int (length (takeWhile (\<lambda>x. x \<noteq> c) (rev s)))
      else - 1)"

text \<open>
  \<^verbatim>\<open>pathlib\<close> is not part of the repository. Modelled from CPython's
  \<^verbatim>\<open>PurePosixPath\<close> (3.8 to 3.13): the parts of a path are the components between
  \<^verbatim>\<open>/\<close> that are neither empty nor \<^verbatim>\<open>.\<close>; \<^verbatim>\<open>name\<close> is the last part, or the empty
  string; \<^verbatim>\<open>suffix\<close> is the name from its last dot on, when that dot is neither the first
  nor the last character of the name, and the empty string otherwise.
\<close>

definition path_name :: "string \<Rightarrow> string" where
  "path_name p =
     (case filter (\<lambda>x. x \<noteq> [] \<and> x \<noteq> ''.'') (split_on CHR ''/'' p) of
        [] \<Rightarrow> []
      | parts \<Rightarrow> last parts)"

definition suffix :: "string \<Rightarrow> string" where
  "suffix p =
     (let name = path_name p; i = rfind name CHR ''.''
      in if 0 < i \<and> i < int (length name) - 1 then drop (nat i) name else [])"

text \<open>\<^verbatim>\<open>SUPPORTED_EXTENSIONS\<close> of \<^verbatim>\<open>src/src/file_utils.py\<close>.\<close>

definition SUPPORTED_EXTENSIONS :: "string list" where
  "SUPPORTED_EXTENSIONS =
     [''.txt'', ''.xml'', ''.java'', ''.py'', ''.js'', ''.html'', ''.css'', ''.json'',
      ''.md'', ''.yml'', ''.yaml'', ''.ini'', ''.cfg'', ''.conf'', ''.log'', ''.sql'',
      ''.c'', ''.cpp'', ''.h'', ''.hpp'', ''.cs'', ''.php'', ''.rb'', ''.go'', ''.rs'',
      ''.sh'', ''.bat'', ''.ps1'', ''.r'', ''.scala'', ''.kt'', ''.swift'', ''.dart'',
      ''.tsx'', ''.jsx'', ''.vue'', ''.svelte'', ''.ts'', ''.coffee'', ''.less'',
      ''.scss'', ''.sass'', ''.styl'', ''.pug'', ''.ejs'', ''.hbs'', ''.mustache'']"

text \<open>\<^verbatim>\<open>is_text_file\<close> of \<^verbatim>\<open>src/src/file_utils.py\<close>.\<close>

definition is_text_file :: "string \<Rightarrow> bool" where
  "is_text_file file_path \<longleftrightarrow> lower (suffix file_path) \<in> set SUPPORTED_EXTENSIONS"

text \<open>
  \<^verbatim>\<open>is_text_file\<close> of \<^verbatim>\<open>src/file_merger.py\<close>, with its own local set
  \<^verbatim>\<open>text_extensions\<close>.
\<close>

definition text_extensions :: "string list" where
  "text_extensions =
     [''.txt'', ''.xml'', ''.java'', ''.py'', ''.js'', ''.html'', ''.css'', ''.json'',
      ''.md'', ''.yml'', ''.yaml'', ''.ini'', ''.cfg'', ''.conf'', ''.log'', ''.sql'',
      ''.c'', ''.cpp'', ''.h'', ''.hpp'', ''.cs'', ''.php'', ''.rb'', ''.go'', ''.rs'',
      ''.sh'', ''.bat'', ''.ps1'', ''.r'', ''.scala'', ''.kt'', ''.swift'', ''.dart'',
      ''.tsx'', ''.jsx'', ''.vue'', ''.svelte'', ''.ts'', ''.coffee'', ''.less'',
      ''.scss'', ''.sass'', ''.styl'', ''.pug'', ''.ejs'', ''.hbs'', ''.mustache'']"

definition fm_is_text_file :: "string \<Rightarrow> bool" where
  "fm_is_text_file file_path \<longleftrightarrow> lower (suffix file_path) \<in> set text_extensions"

text \<open>
  The allow-list as section 6 of the specification writes it, for comparison with the
  two sets of the source.
\<close>

definition spec_allow_list :: "string list" where
  "spec_allow_list =
     [''.txt'', ''.xml'', ''.java'', ''.py'', ''.js'', ''.html'', ''.css'', ''.json'',
      ''.md'', ''.yml'', ''.yaml'', ''.ini'', ''.cfg'', ''.conf'', ''.log'', ''.sql'',
      ''.c'', ''.cpp'', ''.h'', ''.hpp'', ''.cs'', ''.php'', ''.rb'', ''.go'', ''.rs'',
      ''.sh'', ''.bat'', ''.ps1'', ''.r'', ''.scala'', ''.kt'', ''.swift'', ''.dart'',
      ''.tsx'', ''.jsx'', ''.vue'', ''.svelte'', ''.ts'', ''.coffee'', ''.less'',
      ''.scss'', ''.sass'', ''.styl'', ''.pug'', ''.ejs'', ''.hbs'', ''.mustache'']"

subsection \<open>Archive Expander\<close>

text \<open>\<^verbatim>\<open>os.path.join\<close> (posixpath) of two components.\<close>

definition join :: "string \<Rightarrow> string \<Rightarrow> string" where
  "join a b =
     (if b \<noteq> [] \<and> hd b = CHR ''/'' then b
      else if a = [] \<or> last a = CHR ''/'' then a @ b
      else a @ ''/'' @ b)"

text \<open>
  \<^verbatim>\<open>os.walk(dir)\<close>, top-down: for a directory, the triple of its path, the names of its
  subdirectories and the names of its other entries, then the walks of its
  subdirectories in the order listed.
\<close>

fun dirnames :: "(string \<times> dirent) list \<Rightarrow> string list" where
  "dirnames [] = []"
| "dirnames ((name, RegFile) # es) = dirnames es"
| "dirnames ((name, Directory sub) # es) = name # dirnames es"

fun filenames :: "(string \<times> dirent) list \<Rightarrow> string list" where
  "filenames [] = []"
| "filenames ((name, RegFile) # es) = name # filenames es"
| "filenames ((name, Directory sub) # es) = filenames es"

fun walk :: "string \<Rightarrow> (string \<times> dirent) list \<Rightarrow> (string \<times> string list \<times> string list) list"
  and walk_subdirs :: "string \<Rightarrow> (string \<times> dirent) list \<Rightarrow> (string \<times> string list \<times> string list) list"
where
  "walk dir entries = (dir, dirnames entries, filenames entries) # walk_subdirs dir entries"
| "walk_subdirs dir [] = []"
| "walk_subdirs dir ((name, RegFile) # es) = walk_subdirs dir es"
| "walk_subdirs dir ((name, Directory sub) # es) = walk (join dir name) sub @ walk_subdirs dir es"

text \<open>
  The two nested loops over \<^verbatim>\<open>os.walk(temp_dir)\<close>: the paths appended to
  \<^verbatim>\<open>file_paths\<close>, in the order of the appends. The filter is a parameter, since each
  copy of the function calls the \<^verbatim>\<open>is_text_file\<close> of its own module.
\<close>

definition collect_files :: "(string \<Rightarrow> bool) \<Rightarrow> (string \<times> string list \<times> string list) list \<Rightarrow> string list" where
  "collect_files keep triples =
     concat (map (\<lambda>(root, dirs, files). filter keep (map (join root) files)) triples)"

text \<open>
  \<^verbatim>\<open>extract_zip_files\<close> of \<^verbatim>\<open>src/src/zip_utils.py\<close>. \<^verbatim>\<open>tempfile.mkdtemp()\<close> is called
  before the \<^verbatim>\<open>try\<close>; the handler raises a new \<^verbatim>\<open>Exception\<close>.
\<close>

definition extract_zip_files :: "os_env \<Rightarrow> bytes \<Rightarrow> exn + string list" where
  "extract_zip_files env zip_file =
     and_then (mkdtemp env) (\<lambda>temp_dir.
       try_except
         (and_then (extractall env zip_file temp_dir) (\<lambda>entries.
            Inr (sort (collect_files is_text_file (walk temp_dir entries)))))
         (\<lambda>e. Inl (Exception (''Error extracting zip file: '' @ str e))))"

text \<open>
  \<^verbatim>\<open>extract_zip_files\<close> of \<^verbatim>\<open>src/file_merger.py\<close>. Its handler calls \<^verbatim>\<open>st.error\<close> and
  returns the empty list; the first component of the result is the list of the messages
  given to \<^verbatim>\<open>st.error\<close>.
\<close>

definition fm_extract_zip_files :: "os_env \<Rightarrow> bytes \<Rightarrow> string list \<times> (exn + string list)" where
  "fm_extract_zip_files env zip_file =
     (case mkdtemp env of
        Inl e \<Rightarrow> ([], Inl e)
      | Inr temp_dir \<Rightarrow>
          (case extractall env zip_file temp_dir of
             Inr entries \<Rightarrow>
               ([], Inr (sort (collect_files fm_is_text_file (walk temp_dir entries))))
           | Inl e \<Rightarrow> ([''Error extracting zip file: '' @ str e], Inr [])))"

text \<open>
  For the statement of what the expander returns: the full paths of all regular files
  below a directory, as the paths which \<^verbatim>\<open>os.path.join\<close> builds on the way down. This is
  the specification's "every regular file found", defined on the tree itself and not
  through \<^const>\<open>walk\<close>.
\<close>

fun tree_files :: "string \<Rightarrow> (string \<times> dirent) list \<Rightarrow> string list" where
  "tree_files dir [] = []"
| "tree_files dir ((name, RegFile) # es) = join dir name # tree_files dir es"
| "tree_files dir ((name, Directory sub) # es) = tree_files (join dir name) sub @ tree_files dir es"

subsection \<open>Statistics Reporter\<close>

text \<open>
  The two numbers \<^verbatim>\<open>render_statistics\<close> (\<^verbatim>\<open>src/src/app.py\<close>) and \<^verbatim>\<open>main\<close>
  (\<^verbatim>\<open>src/file_merger.py\<close>) show: \<^verbatim>\<open>len(merged_content)\<close> and
  \<^verbatim>\<open>merged_content.count(chr(10)) + 1\<close>.
\<close>

definition total_characters :: "string \<Rightarrow> nat" where
  "total_characters text = length text"

definition total_lines :: "string \<Rightarrow> nat" where
  "total_lines text = count_list text (CHR 0x0A) + 1"

subsection \<open>A sample environment\<close>

text \<open>
  A concrete environment on which the functions can be run: five files under
  \<^verbatim>\<open>/tmp\<close> (two ASCII files, an empty file, a Latin-1 file that \<^verbatim>\<open>chardet\<close> takes for
  ASCII, and one that disappears before the second attempt to read it), and two archives
  holding the same files in different orders. Every other path is missing and every
  other archive is corrupt.
\<close>

definition demo_env :: os_env where
  "demo_env = \<lparr>
     read_binary = (\<lambda>p.
       if p = ''/tmp/foo.txt'' then Inr [0x68, 0x69]
       else if p = ''/tmp/bar.txt'' then Inr [0x62, 0x79, 0x65]
       else if p = ''/tmp/empty.txt'' then Inr []
       else if p = ''/tmp/cafe.txt'' then Inr [0x63, 0x61, 0x66, 0xE9]
       else if p = ''/tmp/moved.txt'' then Inr [0x63, 0x61, 0x66, 0xE9]
       else Inl (OSError ''[Errno 2] No such file or directory'')),
     chardet_detect = (\<lambda>raw. if raw = [] then Inr None else Inr (Some ''ascii'')),
     read_text = (\<lambda>p encoding errors.
       if p = ''/tmp/foo.txt'' then Inr ''hi''
       else if p = ''/tmp/bar.txt'' then Inr ''bye''
       else if p = ''/tmp/empty.txt'' then Inr ''''
       else if p = ''/tmp/cafe.txt'' then
         (if errors = Ignore then Inr ''caf''
          else Inl (UnicodeDecodeError ''ascii codec cannot decode byte 0xe9 in position 3''))
       else if p = ''/tmp/moved.txt'' \<and> errors = Strict then
         Inl (UnicodeDecodeError ''ascii codec cannot decode byte 0xe9 in position 3'')
       else Inl (OSError ''[Errno 2] No such file or directory'')),
     mkdtemp = Inr ''/tmp/tmpk3'',
     extractall = (\<lambda>zip_file temp_dir.
       if zip_file = [0x50, 0x4B, 1] then
         Inr [(''b.py'', RegFile), (''a.txt'', RegFile), (''c.md'', RegFile),
              (''tool.exe'', RegFile), (''README'', RegFile),
              (''sub'', Directory [(''z.PY'', RegFile), (''pic.png'', RegFile)])]
       else if zip_file = [0x50, 0x4B, 2] then
         Inr [(''sub'', Directory [(''pic.png'', RegFile), (''z.PY'', RegFile)]),
              (''README'', RegFile), (''c.md'', RegFile), (''tool.exe'', RegFile),
              (''a.txt'', RegFile), (''b.py'', RegFile)]
       else Inl (BadZipFile ''File is not a zip file''))
   \<rparr>"

section \<open>Properties\<close>

subsection \<open>Encoding Detector and File Reader\<close>

lemma detect_encoding_Inr: "\<exists>encoding. detect_encoding env p = Inr encoding"
  by (simp add: detect_encoding_def try_except_def and_then_def split: sum.splits)

lemma read_file_content_Inr: "\<exists>content ok. read_file_content env p = Inr (content, ok)"
proof -
  obtain encoding where "detect_encoding env p = Inr encoding"
    using detect_encoding_Inr by blast
  then show ?thesis
    by (cases "read_text env p encoding Strict"; cases "read_text env p ''utf-8'' Ignore")
       (auto simp add: read_file_content_def try_except_def and_then_def split: exn.splits)
qed

text \<open>
  C9. The Encoding Detector is total: for every path it returns an encoding name and
  raises nothing. It returns \<^verbatim>\<open>'utf-8'\<close> when the read fails, when \<^verbatim>\<open>chardet\<close> fails, and when
  \<^verbatim>\<open>chardet\<close> reports no encoding (\<^verbatim>\<open>None\<close> or the empty string); otherwise it returns
  the encoding \<^verbatim>\<open>chardet\<close> reports.
\<close>

theorem detect_encoding_total:
  "(\<exists>encoding. detect_encoding env p = Inr encoding) \<and>
   (\<forall>e. read_binary env p = Inl e \<longrightarrow> detect_encoding env p = Inr ''utf-8'') \<and>
   (\<forall>raw e. read_binary env p = Inr raw \<and> chardet_detect env raw = Inl e
      \<longrightarrow> detect_encoding env p = Inr ''utf-8'') \<and>
   (\<forall>raw. read_binary env p = Inr raw \<and> chardet_detect env raw = Inr None
      \<longrightarrow> detect_encoding env p = Inr ''utf-8'') \<and>
   (\<forall>raw. read_binary env p = Inr raw \<and> chardet_detect env raw = Inr (Some [])
      \<longrightarrow> detect_encoding env p = Inr ''utf-8'') \<and>
   (\<forall>raw encoding. read_binary env p = Inr raw \<and> chardet_detect env raw = Inr (Some encoding)
      \<and> encoding \<noteq> [] \<longrightarrow> detect_encoding env p = Inr encoding)"
  by (simp add: detect_encoding_def try_except_def and_then_def split: sum.splits option.splits)

theorem detect_encoding_total_witness:
  "detect_encoding demo_env ''/tmp/gone.txt'' = Inr ''utf-8'' \<and>
   detect_encoding demo_env ''/tmp/empty.txt'' = Inr ''utf-8'' \<and>
   detect_encoding demo_env ''/tmp/foo.txt'' = Inr ''ascii''"
proof -
  have 1: "read_binary demo_env ''/tmp/gone.txt'' = Inl (OSError ''[Errno 2] No such file or directory'')"
    by (simp add: demo_env_def)
  have 2: "read_binary demo_env ''/tmp/empty.txt'' = Inr [] \<and> chardet_detect demo_env [] = Inr None"
    by (simp add: demo_env_def)
  have 3: "read_binary demo_env ''/tmp/foo.txt'' = Inr [0x68, 0x69] \<and>
           chardet_detect demo_env [0x68, 0x69] = Inr (Some ''ascii'') \<and> ''ascii'' \<noteq> []"
    by (simp add: demo_env_def)
  show ?thesis
    using 1 2 3 detect_encoding_total [of demo_env "''/tmp/gone.txt''"]
      detect_encoding_total [of demo_env "''/tmp/empty.txt''"]
      detect_encoding_total [of demo_env "''/tmp/foo.txt''"]
    by simp
qed

text \<open>
  C5. The File Reader never raises. With the detected encoding: if the strict read
  succeeds it returns the content and \<^verbatim>\<open>True\<close>; if it raises a decode error, the read is
  retried with \<^verbatim>\<open>utf-8\<close> and \<^verbatim>\<open>errors='ignore'\<close>, and the retry's content is returned
  with \<^verbatim>\<open>True\<close>; if the retry fails too, or the first read raises any other error, a
  sentinel message is returned with \<^verbatim>\<open>False\<close>.
\<close>

theorem read_file_content_never_raises:
  "\<exists>encoding. detect_encoding env p = Inr encoding \<and>
     (\<exists>content ok. read_file_content env p = Inr (content, ok)) \<and>
     (\<forall>content. read_text env p encoding Strict = Inr content
        \<longrightarrow> read_file_content env p = Inr (content, True)) \<and>
     (\<forall>m content. read_text env p encoding Strict = Inl (UnicodeDecodeError m)
          \<and> read_text env p ''utf-8'' Ignore = Inr content
        \<longrightarrow> read_file_content env p = Inr (content, True)) \<and>
     (\<forall>m e. read_text env p encoding Strict = Inl (UnicodeDecodeError m)
          \<and> read_text env p ''utf-8'' Ignore = Inl e
        \<longrightarrow> read_file_content env p
              = Inr (''[Error: Could not read file '' @ p @ '']'', False)) \<and>
     (\<forall>e. read_text env p encoding Strict = Inl e \<and> (\<forall>m. e \<noteq> UnicodeDecodeError m)
        \<longrightarrow> read_file_content env p
              = Inr (''[Error reading '' @ p @ '': '' @ str e @ '']'', False))"
proof -
  obtain encoding where enc: "detect_encoding env p = Inr encoding"
    using detect_encoding_Inr by blast
  have "(\<exists>content ok. read_file_content env p = Inr (content, ok))"
    by (rule read_file_content_Inr)
  moreover have "\<forall>content. read_text env p encoding Strict = Inr content
        \<longrightarrow> read_file_content env p = Inr (content, True)"
    by (simp add: read_file_content_def enc try_except_def and_then_def)
  moreover have "\<forall>m content. read_text env p encoding Strict = Inl (UnicodeDecodeError m)
          \<and> read_text env p ''utf-8'' Ignore = Inr content
        \<longrightarrow> read_file_content env p = Inr (content, True)"
    by (simp add: read_file_content_def enc try_except_def and_then_def)
  moreover have "\<forall>m e. read_text env p encoding Strict = Inl (UnicodeDecodeError m)
          \<and> read_text env p ''utf-8'' Ignore = Inl e
        \<longrightarrow> read_file_content env p
              = Inr (''[Error: Could not read file '' @ p @ '']'', False)"
    by (simp add: read_file_content_def enc try_except_def and_then_def)
  moreover have "\<forall>e. read_text env p encoding Strict = Inl e \<and> (\<forall>m. e \<noteq> UnicodeDecodeError m)
        \<longrightarrow> read_file_content env p
              = Inr (''[Error reading '' @ p @ '': '' @ str e @ '']'', False)"
    by (auto simp add: read_file_content_def enc try_except_def and_then_def split: exn.splits)
  ultimately show ?thesis using enc by blast
qed

theorem read_file_content_never_raises_witness:
  "read_file_content demo_env ''/tmp/foo.txt'' = Inr (''hi'', True) \<and>
   read_file_content demo_env ''/tmp/cafe.txt'' = Inr (''caf'', True) \<and>
   read_file_content demo_env ''/tmp/moved.txt''
     = Inr (''[Error: Could not read file /tmp/moved.txt]'', False) \<and>
   read_file_content demo_env ''/tmp/gone.txt''
     = Inr (''[Error reading /tmp/gone.txt: [Errno 2] No such file or directory]'', False)"
proof -
  have d1: "detect_encoding demo_env ''/tmp/foo.txt'' = Inr ''ascii''"
    by (simp add: detect_encoding_def demo_env_def try_except_def and_then_def)
  have r1: "read_text demo_env ''/tmp/foo.txt'' ''ascii'' Strict = Inr ''hi''"
    by (simp add: demo_env_def)
  have c1: "read_file_content demo_env ''/tmp/foo.txt'' = Inr (''hi'', True)"
    using read_file_content_never_raises [of demo_env "''/tmp/foo.txt''"] d1 r1 by auto
  have d2: "detect_encoding demo_env ''/tmp/cafe.txt'' = Inr ''ascii''"
    by (simp add: detect_encoding_def demo_env_def try_except_def and_then_def)
  have r2: "read_text demo_env ''/tmp/cafe.txt'' ''ascii'' Strict
              = Inl (UnicodeDecodeError ''ascii codec cannot decode byte 0xe9 in position 3'')"
    "read_text demo_env ''/tmp/cafe.txt'' ''utf-8'' Ignore = Inr ''caf''"
    by (simp_all add: demo_env_def)
  have c2: "read_file_content demo_env ''/tmp/cafe.txt'' = Inr (''caf'', True)"
    using read_file_content_never_raises [of demo_env "''/tmp/cafe.txt''"] d2 r2 by auto
  have d3: "detect_encoding demo_env ''/tmp/moved.txt'' = Inr ''ascii''"
    by (simp add: detect_encoding_def demo_env_def try_except_def and_then_def)
  have r3: "read_text demo_env ''/tmp/moved.txt'' ''ascii'' Strict
              = Inl (UnicodeDecodeError ''ascii codec cannot decode byte 0xe9 in position 3'')"
    "read_text demo_env ''/tmp/moved.txt'' ''utf-8'' Ignore
       = Inl (OSError ''[Errno 2] No such file or directory'')"
    by (simp_all add: demo_env_def)
  have c3: "read_file_content demo_env ''/tmp/moved.txt''
              = Inr (''[Error: Could not read file /tmp/moved.txt]'', False)"
    using read_file_content_never_raises [of demo_env "''/tmp/moved.txt''"] d3 r3 by auto
  have d4: "detect_encoding demo_env ''/tmp/gone.txt'' = Inr ''utf-8''"
    by (simp add: detect_encoding_def demo_env_def try_except_def and_then_def)
  have r4: "read_text demo_env ''/tmp/gone.txt'' ''utf-8'' Strict
              = Inl (OSError ''[Errno 2] No such file or directory'')"
    by (simp add: demo_env_def)
  have c4: "read_file_content demo_env ''/tmp/gone.txt''
              = Inr (''[Error reading /tmp/gone.txt: [Errno 2] No such file or directory]'', False)"
    using read_file_content_never_raises [of demo_env "''/tmp/gone.txt''"] d4 r4 by auto
  show ?thesis using c1 c2 c3 c4 by blast
qed

subsection \<open>Merge Engine\<close>

text \<open>
  C10. Merging the empty list of paths returns the empty string, whatever the separator.
\<close>

theorem merge_files_empty: "merge_files env [] separator = Inr ''''"
  by (simp add: merge_files_def merged_content_def and_then_def)

text \<open>
  The loop raises nothing, appends one header for each path, in the order of the list,
  and one separator for each path that differs from the last element of the list.
\<close>

lemma merge_loop_Inr: "\<exists>pieces. merge_loop env file_paths separator ps = Inr pieces"
proof (induction ps)
  case Nil
  show ?case by simp
next
  case (Cons p ps)
  obtain content ok where "read_file_content env p = Inr (content, ok)"
    using read_file_content_Inr by blast
  with Cons show ?case by (auto simp add: and_then_def)
qed

lemma merge_loop_counts:
  "merge_loop env file_paths separator ps = Inr pieces \<Longrightarrow>
     map piece_text (filter is_header pieces) = map (\<lambda>p. header_of (basename p)) ps \<and>
     length (filter is_separator pieces) = length (filter (\<lambda>p. p \<noteq> last file_paths) ps)"
proof (induction ps arbitrary: pieces)
  case Nil
  then show ?case by simp
next
  case (Cons p ps)
  then show ?case
    by (auto simp add: and_then_def split: sum.splits if_splits)
qed

text \<open>
  So a list whose last path occurs nowhere else gets one header for each path and one
  separator fewer.
\<close>

lemma separators_when_last_is_new:
  assumes "file_paths \<noteq> []" "last file_paths \<notin> set (butlast file_paths)"
    "merged_content env file_paths separator = Inr pieces"
  shows "length (filter is_header pieces) = length file_paths \<and>
         length (filter is_separator pieces) = length file_paths - 1"
proof -
  have "filter (\<lambda>p. p \<noteq> last file_paths) file_paths = butlast file_paths"
  proof -
    have "file_paths = butlast file_paths @ [last file_paths]" using assms(1) by simp
    then have "filter (\<lambda>p. p \<noteq> last file_paths) file_paths
        = filter (\<lambda>p. p \<noteq> last file_paths) (butlast file_paths @ [last file_paths])" by simp
    also have "\<dots> = filter (\<lambda>p. p \<noteq> last file_paths) (butlast file_paths)" by simp
    also have "\<dots> = butlast file_paths" using assms(2) by (auto simp add: filter_id_conv)
    finally show ?thesis .
  qed
  moreover have "length (filter is_header pieces) = length file_paths"
    using merge_loop_counts [OF assms(3)[unfolded merged_content_def]]
    by (metis length_map)
  ultimately show ?thesis
    using merge_loop_counts [OF assms(3)[unfolded merged_content_def]] by simp
qed

text \<open>
  C1. The claim is that every list of \<open>N\<close> paths gets \<open>N\<close> headers and \<open>N - 1\<close>
  separators, one between any two consecutive files. The code contradicts it where the
  last path of the list occurs earlier too: merging \<^verbatim>\<open>foo.txt\<close>, \<^verbatim>\<open>bar.txt\<close>, \<^verbatim>\<open>foo.txt\<close>
  appends three headers and a single separator; nothing separates the first \<^verbatim>\<open>foo.txt\<close>
  from \<^verbatim>\<open>bar.txt\<close>.
\<close>

theorem merge_files_repeated_path:
  "merged_content demo_env [''/tmp/foo.txt'', ''/tmp/bar.txt'', ''/tmp/foo.txt''] ''#''
     = Inr [Header (header_of ''foo.txt''), Content ''hi'',
            Header (header_of ''bar.txt''), Content ''bye'', Separator ''#'',
            Header (header_of ''foo.txt''), Content ''hi''] \<and>
   length (filter is_separator
            [Header (header_of ''foo.txt''), Content ''hi'',
             Header (header_of ''bar.txt''), Content ''bye'', Separator ''#'',
             Header (header_of ''foo.txt''), Content ''hi'']) = 1 \<and>
   merge_files demo_env [''/tmp/foo.txt'', ''/tmp/bar.txt'', ''/tmp/foo.txt''] ''#''
     = Inr (header_of ''foo.txt'' @ ''hi'' @ header_of ''bar.txt'' @ ''bye'' @ ''#''
            @ header_of ''foo.txt'' @ ''hi'')"
  by code_simp

lemma rfc_foo: "read_file_content demo_env ''/tmp/foo.txt'' = Inr (''hi'', True)" by code_simp
lemma rfc_bar: "read_file_content demo_env ''/tmp/bar.txt'' = Inr (''bye'', True)" by code_simp

text \<open>
  C2, as amended. Merging a file named \<^verbatim>\<open>foo.txt\<close> with content \<^verbatim>\<open>hi\<close> and a file named
  \<^verbatim>\<open>bar.txt\<close> with content \<^verbatim>\<open>bye\<close>, in that order and with the default separator, gives
  the header of \<^verbatim>\<open>foo.txt\<close> (line break, name, colon, line break, 8 dashes, line break),
  \<^verbatim>\<open>hi\<close>, the separator (line break, 80 equals signs, line break), the header of
  \<^verbatim>\<open>bar.txt\<close>, and \<^verbatim>\<open>bye\<close>. No line break stands between \<^verbatim>\<open>hi\<close> and the separator.
\<close>

theorem merge_files_foo_bar:
  assumes "basename p1 = ''foo.txt''" and "basename p2 = ''bar.txt''"
    and "read_file_content env p1 = Inr (''hi'', ok1)"
    and "read_file_content env p2 = Inr (''bye'', ok2)"
  shows "merge_files env [p1, p2] default_separator
    = Inr ([CHR 0x0A] @ ''foo.txt:'' @ [CHR 0x0A] @ ''--------'' @ [CHR 0x0A] @ ''hi''
           @ [CHR 0x0A] @ replicate 80 CHR ''='' @ [CHR 0x0A]
           @ [CHR 0x0A] @ ''bar.txt:'' @ [CHR 0x0A] @ ''--------'' @ [CHR 0x0A] @ ''bye'')"
proof -
  have "p1 \<noteq> p2" using assms(1,2) by auto
  then show ?thesis
    using assms
    by (simp add: merge_files_def merged_content_def and_then_def header_of_def
        default_separator_def)
qed

theorem merge_files_foo_bar_witness:
  "merge_files demo_env [''/tmp/foo.txt'', ''/tmp/bar.txt''] default_separator
    = Inr ([CHR 0x0A] @ ''foo.txt:'' @ [CHR 0x0A] @ ''--------'' @ [CHR 0x0A] @ ''hi''
           @ [CHR 0x0A] @ replicate 80 CHR ''='' @ [CHR 0x0A]
           @ [CHR 0x0A] @ ''bar.txt:'' @ [CHR 0x0A] @ ''--------'' @ [CHR 0x0A] @ ''bye'')"
proof -
  have b: "basename ''/tmp/foo.txt'' = ''foo.txt''" "basename ''/tmp/bar.txt'' = ''bar.txt''"
    by (simp_all add: basename_def)
  show ?thesis
    by (rule merge_files_foo_bar [OF b rfc_foo rfc_bar])
qed

text \<open>
  C2, as stated, has one more line break after \<^verbatim>\<open>hi\<close>; the code does not produce that
  string.
\<close>

theorem merge_files_foo_bar_counterexample:
  "merge_files demo_env [''/tmp/foo.txt'', ''/tmp/bar.txt''] default_separator
    \<noteq> Inr ([CHR 0x0A] @ ''foo.txt:'' @ [CHR 0x0A] @ ''--------'' @ [CHR 0x0A] @ ''hi'' @ [CHR 0x0A]
           @ [CHR 0x0A] @ replicate 80 CHR ''='' @ [CHR 0x0A]
           @ [CHR 0x0A] @ ''bar.txt:'' @ [CHR 0x0A] @ ''--------'' @ [CHR 0x0A] @ ''bye'')"
  by code_simp

subsection \<open>Statistics Reporter\<close>

lemma count_list_filter: "count_list xs y = length (filter (\<lambda>c. c = y) xs)"
  by (induction xs) auto

text \<open>
  C6. The character count is the length of the merged text, and the line count is the
  number of line breaks in it plus one: 1 for the empty text and for a text with no
  line break, 4 for a text with exactly 3 line breaks.
\<close>

theorem statistics_counts:
  "total_characters text = length text \<and>
   total_lines text = length (filter (\<lambda>c. c = CHR 0x0A) text) + 1 \<and>
   total_lines '''' = 1 \<and>
   (length (filter (\<lambda>c. c = CHR 0x0A) text) = 0 \<longrightarrow> total_lines text = 1) \<and>
   (length (filter (\<lambda>c. c = CHR 0x0A) text) = 3 \<longrightarrow> total_lines text = 4)"
  by (simp add: total_characters_def total_lines_def count_list_filter)

theorem statistics_counts_witness:
  "total_lines ''abc'' = 1 \<and>
   total_lines [CHR ''a'', CHR 0x0A, CHR ''b'', CHR 0x0A, CHR 0x0A, CHR ''c''] = 4"
proof -
  have 0: "length (filter (\<lambda>c. c = CHR 0x0A) ''abc'') = 0" by simp
  have 3: "length (filter (\<lambda>c. c = CHR 0x0A)
             [CHR ''a'', CHR 0x0A, CHR ''b'', CHR 0x0A, CHR 0x0A, CHR ''c'']) = 3" by simp
  show ?thesis
    using 0 3 statistics_counts [of "''abc''"]
      statistics_counts [of "[CHR ''a'', CHR 0x0A, CHR ''b'', CHR 0x0A, CHR 0x0A, CHR ''c'']"]
    by blast
qed

subsection \<open>Type Filter\<close>

text \<open>
  The two sets of the source hold the extensions the specification lists, so the two
  copies of \<^verbatim>\<open>is_text_file\<close> are the same function.
\<close>

lemma allow_lists_agree:
  "SUPPORTED_EXTENSIONS = spec_allow_list" "text_extensions = spec_allow_list"
  by (simp_all add: SUPPORTED_EXTENSIONS_def text_extensions_def spec_allow_list_def)

lemma fm_is_text_file_eq: "fm_is_text_file = is_text_file"
  by (rule ext) (simp add: fm_is_text_file_def is_text_file_def allow_lists_agree)

lemma rfind_absent: "c \<notin> set s \<Longrightarrow> rfind s c = - 1"
  by (simp add: rfind_def)

text \<open>
  C7. A path passes the Type Filter if and only if its extension, lowercased, is in the
  allow-list of the specification. A path with the extension \<^verbatim>\<open>.exe\<close> (in any case), with
  no extension, or with no dot in its name is excluded.
\<close>

theorem is_text_file_allow_list:
  "(is_text_file p \<longleftrightarrow> lower (suffix p) \<in> set spec_allow_list) \<and>
   (lower (suffix p) = ''.exe'' \<longrightarrow> \<not> is_text_file p) \<and>
   (suffix p = [] \<longrightarrow> \<not> is_text_file p) \<and>
   (CHR ''.'' \<notin> set (path_name p) \<longrightarrow> \<not> is_text_file p)"
proof -
  have 1: "is_text_file p \<longleftrightarrow> lower (suffix p) \<in> set spec_allow_list"
    by (simp add: is_text_file_def allow_lists_agree)
  have 2: "lower (suffix p) = ''.exe'' \<longrightarrow> \<not> is_text_file p"
    by (simp add: is_text_file_def SUPPORTED_EXTENSIONS_def)
  have 3: "suffix p = [] \<longrightarrow> \<not> is_text_file p"
    by (simp add: is_text_file_def SUPPORTED_EXTENSIONS_def lower_def)
  have "CHR ''.'' \<notin> set (path_name p) \<longrightarrow> suffix p = []"
    by (simp add: suffix_def rfind_absent Let_def)
  with 3 have 4: "CHR ''.'' \<notin> set (path_name p) \<longrightarrow> \<not> is_text_file p" by blast
  show ?thesis using 1 2 3 4 by blast
qed

theorem is_text_file_allow_list_witness:
  "is_text_file ''/tmp/tmpk3/src/Main.JAVA'' \<and> \<not> is_text_file ''/tmp/tmpk3/tool.EXE'' \<and>
   \<not> is_text_file ''/tmp/tmpk3/README'' \<and> \<not> is_text_file ''/tmp/v1.2/Makefile''"
proof -
  have 1: "lower (suffix ''/tmp/tmpk3/src/Main.JAVA'') \<in> set spec_allow_list" by code_simp
  have 2: "lower (suffix ''/tmp/tmpk3/tool.EXE'') = ''.exe''" by code_simp
  have 3: "suffix ''/tmp/tmpk3/README'' = []" by code_simp
  have 4: "CHR ''.'' \<notin> set (path_name ''/tmp/v1.2/Makefile'')" by code_simp
  show ?thesis
    using 1 2 3 4 is_text_file_allow_list [of "''/tmp/tmpk3/src/Main.JAVA''"]
      is_text_file_allow_list [of "''/tmp/tmpk3/tool.EXE''"]
      is_text_file_allow_list [of "''/tmp/tmpk3/README''"]
      is_text_file_allow_list [of "''/tmp/v1.2/Makefile''"]
    by blast
qed

subsection \<open>Archive Expander\<close>

text \<open>
  The paths the two loops collect are, as a multiset, the regular files of the tree
  that pass the filter.
\<close>

lemma collect_files_Cons:
  "collect_files keep ((root, dirs, files) # ts)
     = filter keep (map (join root) files) @ collect_files keep ts"
  by (simp add: collect_files_def)

lemma collect_files_append:
  "collect_files keep (ts @ us) = collect_files keep ts @ collect_files keep us"
  by (simp add: collect_files_def)

lemma collect_files_Nil: "collect_files keep [] = []"
  by (simp add: collect_files_def)

lemma mset_walk_subdirs:
  "mset (collect_files keep (walk_subdirs dir es))
     + filter_mset keep (mset (map (join dir) (filenames es)))
   = filter_mset keep (mset (tree_files dir es))"
proof (induction dir es rule: tree_files.induct)
  case (1 dir)
  show ?case by (simp add: collect_files_Nil)
next
  case (2 dir name es)
  then show ?case by simp
next
  case (3 dir name sub es)
  then show ?case
    by (simp add: collect_files_Cons collect_files_append ac_simps)
qed

lemma mset_walk:
  "mset (collect_files keep (walk dir es)) = filter_mset keep (mset (tree_files dir es))"
  using mset_walk_subdirs [of keep dir es]
  by (simp add: collect_files_Cons ac_simps)

text \<open>
  C4. When the archive is extracted, the expander returns a list that is sorted in
  ascending order and holds exactly the regular files of the extracted tree that pass
  the Type Filter. The list does not depend on the order of the entries: any extraction
  that leaves the same files, listed in whatever order, gives the same list.
\<close>

theorem extract_zip_files_sorted:
  assumes "mkdtemp env = Inr d" and "extractall env z d = Inr es"
  shows "\<exists>ps. extract_zip_files env z = Inr ps \<and> sorted ps \<and>
           mset ps = filter_mset is_text_file (mset (tree_files d es)) \<and>
           (\<forall>env' z' es'. mkdtemp env' = Inr d \<and> extractall env' z' d = Inr es'
                \<and> mset (tree_files d es') = mset (tree_files d es)
              \<longrightarrow> extract_zip_files env' z' = Inr ps)"
proof -
  let ?ps = "sort (collect_files is_text_file (walk d es))"
  have r: "extract_zip_files env z = Inr ?ps"
    using assms by (simp add: extract_zip_files_def and_then_def try_except_def)
  have s: "sorted ?ps" by simp
  have m: "mset ?ps = filter_mset is_text_file (mset (tree_files d es))"
    by (simp add: mset_walk del: walk.simps)
  have "extract_zip_files env' z' = Inr ?ps"
    if h: "mkdtemp env' = Inr d" "extractall env' z' d = Inr es'"
      "mset (tree_files d es') = mset (tree_files d es)" for env' z' es'
  proof -
    let ?qs = "sort (collect_files is_text_file (walk d es'))"
    have "extract_zip_files env' z' = Inr ?qs"
      using h by (simp add: extract_zip_files_def and_then_def try_except_def)
    moreover have "mset ?qs = mset ?ps" using h(3) by (simp add: mset_walk del: walk.simps)
    then have "?qs = ?ps"
      by (metis properties_for_sort sorted_sort mset_sort sorted_sort_id)
    ultimately show ?thesis by simp
  qed
  then show ?thesis using r s m by blast
qed

theorem extract_zip_files_sorted_witness:
  "extract_zip_files demo_env [0x50, 0x4B, 1]
     = Inr [''/tmp/tmpk3/a.txt'', ''/tmp/tmpk3/b.py'', ''/tmp/tmpk3/c.md'', ''/tmp/tmpk3/sub/z.PY''] \<and>
   extract_zip_files demo_env [0x50, 0x4B, 2] = extract_zip_files demo_env [0x50, 0x4B, 1]"
proof -
  let ?es1 = "[(''b.py'', RegFile), (''a.txt'', RegFile), (''c.md'', RegFile),
              (''tool.exe'', RegFile), (''README'', RegFile),
              (''sub'', Directory [(''z.PY'', RegFile), (''pic.png'', RegFile)])]"
  let ?es2 = "[(''sub'', Directory [(''pic.png'', RegFile), (''z.PY'', RegFile)]),
              (''README'', RegFile), (''c.md'', RegFile), (''tool.exe'', RegFile),
              (''a.txt'', RegFile), (''b.py'', RegFile)]"
  have a: "mkdtemp demo_env = Inr ''/tmp/tmpk3''" by (simp add: demo_env_def)
  have b: "extractall demo_env [0x50, 0x4B, 1] ''/tmp/tmpk3'' = Inr ?es1"
    by (simp add: demo_env_def)
  have c: "extractall demo_env [0x50, 0x4B, 2] ''/tmp/tmpk3'' = Inr ?es2"
    by (simp add: demo_env_def)
  have d: "mset (tree_files ''/tmp/tmpk3'' ?es2) = mset (tree_files ''/tmp/tmpk3'' ?es1)"
    by (simp add: join_def)
  have e: "extract_zip_files demo_env [0x50, 0x4B, 1]
     = Inr [''/tmp/tmpk3/a.txt'', ''/tmp/tmpk3/b.py'', ''/tmp/tmpk3/c.md'', ''/tmp/tmpk3/sub/z.PY'']"
    by code_simp
  from extract_zip_files_sorted [OF a b] a c d
  have "extract_zip_files demo_env [0x50, 0x4B, 2] = extract_zip_files demo_env [0x50, 0x4B, 1]"
    by metis
  with e show ?thesis by simp
qed

text \<open>
  C8. When extraction fails, \<^verbatim>\<open>extract_zip_files\<close> of \<^verbatim>\<open>src/src/zip_utils.py\<close> raises one
  \<^verbatim>\<open>Exception\<close> that carries the message of the failure, and returns no list; a failure
  of \<^verbatim>\<open>tempfile.mkdtemp\<close> is raised as it is. A list is returned only when the whole
  archive was extracted.
\<close>

theorem extract_zip_files_fails_closed:
  "(\<forall>d e. mkdtemp env = Inr d \<and> extractall env z d = Inl e
      \<longrightarrow> extract_zip_files env z = Inl (Exception (''Error extracting zip file: '' @ str e))) \<and>
   (\<forall>e. mkdtemp env = Inl e \<longrightarrow> extract_zip_files env z = Inl e) \<and>
   (\<forall>ps. extract_zip_files env z = Inr ps
      \<longrightarrow> (\<exists>d es. mkdtemp env = Inr d \<and> extractall env z d = Inr es))"
  by (auto simp add: extract_zip_files_def and_then_def try_except_def split: sum.splits)

theorem extract_zip_files_fails_closed_witness:
  "extract_zip_files demo_env [0x50]
     = Inl (Exception ''Error extracting zip file: File is not a zip file'')"
proof -
  have "mkdtemp demo_env = Inr ''/tmp/tmpk3'' \<and>
        extractall demo_env [0x50] ''/tmp/tmpk3'' = Inl (BadZipFile ''File is not a zip file'')"
    by (simp add: demo_env_def)
  then show ?thesis
    using extract_zip_files_fails_closed [of demo_env "[0x50]"] by fastforce
qed

text \<open>
  C3, as stated, fails on a corrupt archive: the copy in \<^verbatim>\<open>src/file_merger.py\<close> returns
  the empty list, the copy in \<^verbatim>\<open>src/src/zip_utils.py\<close> raises.
\<close>

theorem extract_zip_files_copies_counterexample:
  "snd (fm_extract_zip_files demo_env [0x50]) \<noteq> extract_zip_files demo_env [0x50]"
  by code_simp

text \<open>
  C3, as amended. The two copies return the same list when extraction succeeds, and
  both raise the error of \<^verbatim>\<open>tempfile.mkdtemp\<close> unchanged. When extraction fails, the copy
  in \<^verbatim>\<open>src/file_merger.py\<close> gives the message to \<^verbatim>\<open>st.error\<close> and returns the empty list,
  and the copy in \<^verbatim>\<open>src/src/zip_utils.py\<close> raises an \<^verbatim>\<open>Exception\<close> with the same
  message.
\<close>

theorem extract_zip_files_copies:
  "(\<forall>e. mkdtemp env = Inl e
      \<longrightarrow> fm_extract_zip_files env z = ([], Inl e) \<and> extract_zip_files env z = Inl e) \<and>
   (\<forall>d es. mkdtemp env = Inr d \<and> extractall env z d = Inr es
      \<longrightarrow> (\<exists>ps. extract_zip_files env z = Inr ps \<and> fm_extract_zip_files env z = ([], Inr ps))) \<and>
   (\<forall>d e. mkdtemp env = Inr d \<and> extractall env z d = Inl e
      \<longrightarrow> fm_extract_zip_files env z = ([''Error extracting zip file: '' @ str e], Inr []) \<and>
          extract_zip_files env z = Inl (Exception (''Error extracting zip file: '' @ str e)))"
  by (auto simp add: extract_zip_files_def fm_extract_zip_files_def fm_is_text_file_eq
      and_then_def try_except_def)

theorem extract_zip_files_copies_witness:
  "fm_extract_zip_files demo_env [0x50, 0x4B, 1]
     = ([], extract_zip_files demo_env [0x50, 0x4B, 1]) \<and>
   fm_extract_zip_files demo_env [0x50]
     = ([''Error extracting zip file: File is not a zip file''], Inr []) \<and>
   extract_zip_files demo_env [0x50]
     = Inl (Exception ''Error extracting zip file: File is not a zip file'')"
proof -
  have a: "mkdtemp demo_env = Inr ''/tmp/tmpk3''" by (simp add: demo_env_def)
  have b: "\<exists>es. extractall demo_env [0x50, 0x4B, 1] ''/tmp/tmpk3'' = Inr es"
    by (simp add: demo_env_def)
  have c: "extractall demo_env [0x50] ''/tmp/tmpk3'' = Inl (BadZipFile ''File is not a zip file'')"
    by (simp add: demo_env_def)
  have 1: "fm_extract_zip_files demo_env [0x50, 0x4B, 1]
     = ([], extract_zip_files demo_env [0x50, 0x4B, 1])"
    using a b extract_zip_files_copies [of demo_env "[0x50, 0x4B, 1]"] by fastforce
  have 2: "fm_extract_zip_files demo_env [0x50]
       = ([''Error extracting zip file: File is not a zip file''], Inr []) \<and>
     extract_zip_files demo_env [0x50]
       = Inl (Exception ''Error extracting zip file: File is not a zip file'')"
    using a c extract_zip_files_copies [of demo_env "[0x50]"] by fastforce
  show ?thesis using 1 2 by blast
qed

end
